theory Spec2Isabelle
  imports Complex_Main
begin

section \<open>Python values used by the repricing engine\<close>

text \<open>
  The services work on \<^verbatim>\<open>decimal.Decimal\<close> values in the default context
  (28 significant digits, round-half-even, exponents between -999999 and 999999, with the
  traps InvalidOperation, DivisionByZero and Overflow enabled, so that these conditions are
  raised as exceptions). A Decimal is a sign, a non-negative integer coefficient and an
  integer exponent, or one of the special values. The sign is \<open>True\<close> for a negative
  number. Strings are lists of 8-bit characters (code points below 256).
\<close>

datatype decimal =
    Finite bool nat int
  | Infinity bool
  | NaN bool bool nat

datatype error = InvalidOperation | DivisionByZero | Overflow | CsvError | KeyError | TypeError

datatype rounding = ROUND_HALF_UP | ROUND_HALF_EVEN

definition prec :: nat where
  "prec = 28"

definition Emax :: int where
  "Emax = 999999"

definition Emin :: int where
  "Emin = - 999999"

definition Etiny :: int where
  "Etiny = Emin - int prec + 1"

definition Etop :: int where
  "Etop = Emax - int prec + 1"

text \<open>\<open>ndigits n\<close> is \<^verbatim>\<open>len(str(n))\<close>.\<close>

fun ndigits :: "nat \<Rightarrow> nat" where
  "ndigits n = (if n < 10 then 1 else Suc (ndigits (n div 10)))"

declare ndigits.simps [simp del]

text \<open>
  Dropping the last \<open>k\<close> digits of a coefficient under a rounding mode: the kept digits,
  plus one when the dropped part calls for it (\<^verbatim>\<open>_round_half_up\<close>,
  \<^verbatim>\<open>_round_half_even\<close>).
\<close>

definition round_coeff :: "rounding \<Rightarrow> nat \<Rightarrow> nat \<Rightarrow> nat" where
  "round_coeff r c k =
     (let q = c div 10 ^ k; m = c mod 10 ^ k in
      case r of
        ROUND_HALF_UP \<Rightarrow> (if 10 ^ k \<le> 2 * m then q + 1 else q)
      | ROUND_HALF_EVEN \<Rightarrow> (if 10 ^ k < 2 * m \<or> (2 * m = 10 ^ k \<and> odd q) then q + 1 else q))"

definition is_snan :: "decimal \<Rightarrow> bool" where
  "is_snan d = (case d of NaN s sig p \<Rightarrow> sig | _ \<Rightarrow> False)"

definition is_nan :: "decimal \<Rightarrow> bool" where
  "is_nan d = (case d of NaN s sig p \<Rightarrow> True | _ \<Rightarrow> False)"

definition is_finite :: "decimal \<Rightarrow> bool" where
  "is_finite d = (case d of Finite s c e \<Rightarrow> True | _ \<Rightarrow> False)"

text \<open>\<^verbatim>\<open>__bool__\<close>: special values and non-zero numbers are true.\<close>

definition dec_bool :: "decimal \<Rightarrow> bool" where
  "dec_bool d = (case d of Finite s c e \<Rightarrow> c \<noteq> 0 | _ \<Rightarrow> True)"

definition copy_negate :: "decimal \<Rightarrow> decimal" where
  "copy_negate d =
     (case d of Finite s c e \<Rightarrow> Finite (\<not> s) c e
      | Infinity s \<Rightarrow> Infinity (\<not> s)
      | NaN s sig p \<Rightarrow> NaN (\<not> s) sig p)"

definition copy_abs :: "decimal \<Rightarrow> decimal" where
  "copy_abs d =
     (case d of Finite s c e \<Rightarrow> Finite False c e
      | Infinity s \<Rightarrow> Infinity False
      | NaN s sig p \<Rightarrow> NaN False sig p)"

text \<open>\<^verbatim>\<open>_fix_nan\<close>: a payload longer than the precision keeps its last 28 digits.\<close>

definition fix_nan :: "decimal \<Rightarrow> decimal" where
  "fix_nan d = (case d of NaN s sig p \<Rightarrow> NaN s sig (p mod 10 ^ prec) | _ \<Rightarrow> d)"

text \<open>
  \<^verbatim>\<open>_fix\<close>: round to the context. A zero has its exponent clamped; a number whose
  adjusted exponent exceeds Emax raises Overflow; a coefficient of more than 28 digits
  (or an exponent below Etiny) is rounded half-even.
\<close>

definition dec_fix :: "decimal \<Rightarrow> error + decimal" where
  "dec_fix d =
     (case d of
        NaN s sig p \<Rightarrow> Inr (fix_nan d)
      | Infinity s \<Rightarrow> Inr d
      | Finite s c e \<Rightarrow>
          if c = 0 then Inr (Finite s 0 (min (max e Etiny) Emax))
          else
            let exp_min0 = int (ndigits c) + e - int prec in
            if Etop < exp_min0 then Inl Overflow
            else
              let exp_min = max exp_min0 Etiny in
              if e < exp_min then
                let q = round_coeff ROUND_HALF_EVEN c (nat (exp_min - e));
                    q' = (if prec < ndigits q then q div 10 else q);
                    exp_min' = (if prec < ndigits q then exp_min + 1 else exp_min)
                in if Etop < exp_min' then Inl Overflow else Inr (Finite s q' exp_min')
              else Inr d)"

text \<open>
  \<^verbatim>\<open>_check_nans\<close>: a signaling NaN raises, a quiet NaN is the result of the
  operation; \<open>None\<close> when neither operand is a NaN.
\<close>

definition check_nans :: "decimal \<Rightarrow> decimal \<Rightarrow> (error + decimal) option" where
  "check_nans a b =
     (if is_snan a \<or> is_snan b then Some (Inl InvalidOperation)
      else if is_nan a then Some (Inr (fix_nan a))
      else if is_nan b then Some (Inr (fix_nan b))
      else None)"

definition check_nan :: "decimal \<Rightarrow> (error + decimal) option" where
  "check_nan a =
     (if is_snan a then Some (Inl InvalidOperation)
      else if is_nan a then Some (Inr (fix_nan a))
      else None)"

text \<open>\<^verbatim>\<open>_rescale\<close>: set the exponent, padding with zeros or rounding digits away.\<close>

definition dec_rescale :: "decimal \<Rightarrow> int \<Rightarrow> rounding \<Rightarrow> decimal" where
  "dec_rescale d ex r =
     (case d of
        Finite s c e \<Rightarrow>
          if c = 0 then Finite s 0 ex
          else if ex \<le> e then Finite s (c * 10 ^ nat (e - ex)) ex
          else Finite s (round_coeff r c (nat (ex - e))) ex
      | _ \<Rightarrow> d)"

text \<open>
  \<^verbatim>\<open>_normalize\<close>: bring two non-zero operands of an addition to one exponent. An
  operand too small to matter after rounding is replaced by a 1 in a place just below the
  digits that can matter.
\<close>

definition normalize :: "nat \<times> int \<Rightarrow> nat \<times> int \<Rightarrow> (nat \<times> int) \<times> (nat \<times> int)" where
  "normalize op1 op2 =
     (let swap = (snd op1 < snd op2);
          tmp = (if swap then op2 else op1);
          other = (if swap then op1 else op2);
          ex = snd tmp + min (- 1) (int (ndigits (fst tmp)) - int prec - 2);
          other' = (if int (ndigits (fst other)) + snd other - 1 < ex then (1, ex) else other);
          tmp' = (fst tmp * 10 ^ nat (snd tmp - snd other'), snd other')
      in if swap then (other', tmp') else (tmp', other'))"

definition add_finite :: "bool \<Rightarrow> nat \<Rightarrow> int \<Rightarrow> bool \<Rightarrow> nat \<Rightarrow> int \<Rightarrow> error + decimal" where
  "add_finite s1 c1 e1 s2 c2 e2 =
     (let ex = min e1 e2 in
      if c1 = 0 \<and> c2 = 0 then dec_fix (Finite (s1 \<and> s2) 0 ex)
      else if c1 = 0 then
        dec_fix (dec_rescale (Finite s2 c2 e2) (max ex (e2 - int prec - 1)) ROUND_HALF_EVEN)
      else if c2 = 0 then
        dec_fix (dec_rescale (Finite s1 c1 e1) (max ex (e1 - int prec - 1)) ROUND_HALF_EVEN)
      else
        let (op1, op2) = normalize (c1, e1) (c2, e2) in
        if s1 \<noteq> s2 then
          if fst op1 = fst op2 then dec_fix (Finite False 0 ex)
          else if fst op1 < fst op2 then dec_fix (Finite s2 (fst op2 - fst op1) (snd op1))
          else dec_fix (Finite s1 (fst op1 - fst op2) (snd op1))
        else dec_fix (Finite s1 (fst op1 + fst op2) (snd op1)))"

text \<open>\<^verbatim>\<open>__add__\<close>, \<^verbatim>\<open>__sub__\<close>, \<^verbatim>\<open>__mul__\<close>.\<close>

definition dec_add :: "decimal \<Rightarrow> decimal \<Rightarrow> error + decimal" where
  "dec_add a b =
     (case check_nans a b of
        Some r \<Rightarrow> r
      | None \<Rightarrow>
         (case a of
            Infinity sa \<Rightarrow>
              (case b of
                 Infinity sb \<Rightarrow> if sa \<noteq> sb then Inl InvalidOperation else Inr a
               | _ \<Rightarrow> Inr a)
          | Finite s1 c1 e1 \<Rightarrow>
              (case b of
                 Finite s2 c2 e2 \<Rightarrow> add_finite s1 c1 e1 s2 c2 e2
               | _ \<Rightarrow> Inr b)
          | _ \<Rightarrow> Inr a))"

definition dec_sub :: "decimal \<Rightarrow> decimal \<Rightarrow> error + decimal" where
  "dec_sub a b =
     (case check_nans a b of
        Some r \<Rightarrow> r
      | None \<Rightarrow> dec_add a (copy_negate b))"

definition dec_mul :: "decimal \<Rightarrow> decimal \<Rightarrow> error + decimal" where
  "dec_mul a b =
     (case check_nans a b of
        Some r \<Rightarrow> r
      | None \<Rightarrow>
         (case a of
            Infinity sa \<Rightarrow>
              (case b of
                 Infinity sb \<Rightarrow> Inr (Infinity (sa \<noteq> sb))
               | Finite sb cb eb \<Rightarrow>
                   if cb = 0 then Inl InvalidOperation else Inr (Infinity (sa \<noteq> sb))
               | _ \<Rightarrow> Inr a)
          | Finite s1 c1 e1 \<Rightarrow>
              (case b of
                 Infinity sb \<Rightarrow>
                   if c1 = 0 then Inl InvalidOperation else Inr (Infinity (s1 \<noteq> sb))
               | Finite s2 c2 e2 \<Rightarrow> dec_fix (Finite (s1 \<noteq> s2) (c1 * c2) (e1 + e2))
               | _ \<Rightarrow> Inr b)
          | _ \<Rightarrow> Inr a))"

text \<open>
  \<^verbatim>\<open>__truediv__\<close>. The quotient of two non-zero numbers is computed to 29 digits;
  an inexact quotient is marked by a last digit other than 0 or 5 so that the final
  rounding is correct, an exact one loses trailing zeros down to the ideal exponent.
\<close>

function strip_zeros :: "nat \<Rightarrow> int \<Rightarrow> int \<Rightarrow> nat \<times> int" where
  "strip_zeros c e ideal =
     (if e < ideal \<and> c mod 10 = 0 then strip_zeros (c div 10) (e + 1) ideal else (c, e))"
  by pat_completeness auto
termination
  by (relation "measure (\<lambda>(c, e, ideal). nat (ideal - e))") auto

declare strip_zeros.simps [simp del]

definition div_finite :: "bool \<Rightarrow> nat \<Rightarrow> int \<Rightarrow> nat \<Rightarrow> int \<Rightarrow> error + decimal" where
  "div_finite sg c1 e1 c2 e2 =
     (let shift = int (ndigits c2) - int (ndigits c1) + int prec + 1;
          ex = e1 - e2 - shift;
          num = (if 0 \<le> shift then c1 * 10 ^ nat shift else c1);
          den = (if 0 \<le> shift then c2 else c2 * 10 ^ nat (- shift));
          coeff = num div den;
          remainder = num mod den
      in if remainder \<noteq> 0 then
           dec_fix (Finite sg (if coeff mod 5 = 0 then coeff + 1 else coeff) ex)
         else
           (case strip_zeros coeff ex (e1 - e2) of (c, e) \<Rightarrow> dec_fix (Finite sg c e)))"

definition dec_div :: "decimal \<Rightarrow> decimal \<Rightarrow> error + decimal" where
  "dec_div a b =
     (case check_nans a b of
        Some r \<Rightarrow> r
      | None \<Rightarrow>
         (case a of
            Infinity sa \<Rightarrow>
              (case b of
                 Infinity sb \<Rightarrow> Inl InvalidOperation
               | Finite sb cb eb \<Rightarrow> Inr (Infinity (sa \<noteq> sb))
               | _ \<Rightarrow> Inr a)
          | Finite s1 c1 e1 \<Rightarrow>
              (case b of
                 Infinity sb \<Rightarrow> Inr (Finite (s1 \<noteq> sb) 0 Etiny)
               | Finite s2 c2 e2 \<Rightarrow>
                   if c2 = 0 then (if c1 = 0 then Inl InvalidOperation else Inl DivisionByZero)
                   else if c1 = 0 then dec_fix (Finite (s1 \<noteq> s2) 0 (e1 - e2))
                   else div_finite (s1 \<noteq> s2) c1 e1 c2 e2
               | _ \<Rightarrow> Inr b)
          | _ \<Rightarrow> Inr a))"

text \<open>\<^verbatim>\<open>__neg__\<close>, \<^verbatim>\<open>__pos__\<close> and \<^verbatim>\<open>__abs__\<close> round their result to the context.\<close>

definition dec_neg :: "decimal \<Rightarrow> error + decimal" where
  "dec_neg a =
     (case check_nan a of
        Some r \<Rightarrow> r
      | None \<Rightarrow> dec_fix (if \<not> dec_bool a then copy_abs a else copy_negate a))"

definition dec_pos :: "decimal \<Rightarrow> error + decimal" where
  "dec_pos a =
     (case check_nan a of
        Some r \<Rightarrow> r
      | None \<Rightarrow> dec_fix (if \<not> dec_bool a then copy_abs a else a))"

definition dec_sign :: "decimal \<Rightarrow> bool" where
  "dec_sign d = (case d of Finite s c e \<Rightarrow> s | Infinity s \<Rightarrow> s | NaN s sig p \<Rightarrow> s)"

definition dec_abs :: "decimal \<Rightarrow> error + decimal" where
  "dec_abs a =
     (case check_nan a of
        Some r \<Rightarrow> r
      | None \<Rightarrow> if dec_sign a then dec_neg a else dec_pos a)"

text \<open>
  \<^verbatim>\<open>quantize\<close>: round to the exponent of the second operand. The result must fit
  the precision, else InvalidOperation is raised.
\<close>

definition adjusted :: "nat \<Rightarrow> int \<Rightarrow> int" where
  "adjusted c e = e + int (ndigits c) - 1"

definition quantize :: "decimal \<Rightarrow> decimal \<Rightarrow> rounding \<Rightarrow> error + decimal" where
  "quantize a ex r =
     (case check_nans a ex of
        Some res \<Rightarrow> res
      | None \<Rightarrow>
         (case a of
            Infinity sa \<Rightarrow> (case ex of Infinity sb \<Rightarrow> Inr a | _ \<Rightarrow> Inl InvalidOperation)
          | Finite s c e \<Rightarrow>
              (case ex of
                 Finite sx cx ee \<Rightarrow>
                   if \<not> (Etiny \<le> ee \<and> ee \<le> Emax) then Inl InvalidOperation
                   else if c = 0 then dec_fix (Finite s 0 ee)
                   else if Emax < adjusted c e then Inl InvalidOperation
                   else if int prec < adjusted c e - ee + 1 then Inl InvalidOperation
                   else
                     (case dec_rescale a ee r of
                        Finite s' c' e' \<Rightarrow>
                          if Emax < adjusted c' e' then Inl InvalidOperation
                          else if prec < ndigits c' then Inl InvalidOperation
                          else dec_fix (Finite s' c' e')
                      | other \<Rightarrow> Inr other)
               | _ \<Rightarrow> Inl InvalidOperation)
          | _ \<Rightarrow> Inr a))"

text \<open>
  \<^verbatim>\<open>_cmp\<close> on two values that are not NaN: -1, 0 or 1. Two finite numbers are
  compared as integers after scaling both to the smaller exponent.
\<close>

definition signed_int :: "bool \<Rightarrow> nat \<Rightarrow> int" where
  "signed_int s c = (if s then - int c else int c)"

definition inf_rank :: "decimal \<Rightarrow> int" where
  "inf_rank d = (case d of Infinity s \<Rightarrow> (if s then - 1 else 1) | _ \<Rightarrow> 0)"

definition dec_cmp :: "decimal \<Rightarrow> decimal \<Rightarrow> int" where
  "dec_cmp a b =
     (case (a, b) of
        (Finite s1 c1 e1, Finite s2 c2 e2) \<Rightarrow>
          (let m = min e1 e2;
               x = signed_int s1 c1 * 10 ^ nat (e1 - m);
               y = signed_int s2 c2 * 10 ^ nat (e2 - m)
           in if x < y then - 1 else if x = y then 0 else 1)
      | _ \<Rightarrow>
          (if inf_rank a = inf_rank b then 0 else if inf_rank a < inf_rank b then - 1 else 1))"

text \<open>
  \<^verbatim>\<open>==\<close> is false on a quiet NaN and raises on a signaling one; the order
  comparisons raise InvalidOperation on every NaN.
\<close>

definition dec_eq :: "decimal \<Rightarrow> decimal \<Rightarrow> error + bool" where
  "dec_eq a b =
     (if is_snan a \<or> is_snan b then Inl InvalidOperation
      else if is_nan a \<or> is_nan b then Inr False
      else Inr (dec_cmp a b = 0))"

definition dec_lt :: "decimal \<Rightarrow> decimal \<Rightarrow> error + bool" where
  "dec_lt a b =
     (if is_nan a \<or> is_nan b then Inl InvalidOperation else Inr (dec_cmp a b < 0))"

definition dec_le :: "decimal \<Rightarrow> decimal \<Rightarrow> error + bool" where
  "dec_le a b =
     (if is_nan a \<or> is_nan b then Inl InvalidOperation else Inr (dec_cmp a b \<le> 0))"

definition dec_ge :: "decimal \<Rightarrow> decimal \<Rightarrow> error + bool" where
  "dec_ge a b =
     (if is_nan a \<or> is_nan b then Inl InvalidOperation else Inr (0 \<le> dec_cmp a b))"

text \<open>The number a finite Decimal stands for.\<close>

definition pow10 :: "int \<Rightarrow> rat" where
  "pow10 e = (if 0 \<le> e then 10 ^ nat e else 1 / 10 ^ nat (- e))"

definition dec_val :: "decimal \<Rightarrow> rat" where
  "dec_val d =
     (case d of Finite s c e \<Rightarrow> (if s then - 1 else 1) * of_nat c * pow10 e | _ \<Rightarrow> 0)"

section \<open>Decimals and strings\<close>

text \<open>
  \<^verbatim>\<open>str.strip()\<close> removes the white space of \<^verbatim>\<open>str.isspace\<close> at both ends;
  below 256 these are the code points 9 to 13, 28 to 32, 133 and 160.
\<close>

definition is_space :: "char \<Rightarrow> bool" where
  "is_space c =
     (let n = (of_char c :: nat) in (9 \<le> n \<and> n \<le> 13) \<or> (28 \<le> n \<and> n \<le> 32) \<or> n = 133 \<or> n = 160)"

definition strip :: "string \<Rightarrow> string" where
  "strip s = rev (dropWhile is_space (rev (dropWhile is_space s)))"

definition is_digit :: "char \<Rightarrow> bool" where
  "is_digit c = (let n = (of_char c :: nat) in 48 \<le> n \<and> n \<le> 57)"

definition to_lower :: "char \<Rightarrow> char" where
  "to_lower c = (let n = (of_char c :: nat) in if 65 \<le> n \<and> n \<le> 90 then char_of (n + 32) else c)"

definition digit_char :: "nat \<Rightarrow> char" where
  "digit_char d = char_of (48 + d)"

text \<open>\<^verbatim>\<open>str(n)\<close> and \<^verbatim>\<open>int(s)\<close> for a non-negative integer and a string of digits.\<close>

fun show_nat :: "nat \<Rightarrow> string" where
  "show_nat n = (if n < 10 then [digit_char n] else show_nat (n div 10) @ [digit_char (n mod 10)])"

declare show_nat.simps [simp del]

definition digits_val :: "string \<Rightarrow> nat" where
  "digits_val ds = foldl (\<lambda>acc c. 10 * acc + ((of_char c :: nat) - 48)) 0 ds"

text \<open>
  \<^verbatim>\<open>Decimal.__str__\<close>: scientific notation, without an exponent when the exponent is
  at most 0 and the number has fewer than six zeros after the point.
\<close>

definition show_exp :: "int \<Rightarrow> string" where
  "show_exp x = (if x < 0 then CHR ''-'' # show_nat (nat (- x)) else CHR ''+'' # show_nat (nat x))"

definition dec_str :: "decimal \<Rightarrow> string" where
  "dec_str d =
     (case d of
        Infinity s \<Rightarrow> (if s then ''-'' else []) @ ''Infinity''
      | NaN s sig p \<Rightarrow>
          (if s then ''-'' else []) @ (if sig then ''sNaN'' else ''NaN'')
            @ (if p = 0 then [] else show_nat p)
      | Finite s c e \<Rightarrow>
          (let digs = show_nat c;
               leftdigits = e + int (length digs);
               dotplace = (if e \<le> 0 \<and> - 6 < leftdigits then leftdigits else 1);
               intpart =
                 (if dotplace \<le> 0 then ''0''
                  else if int (length digs) \<le> dotplace
                    then digs @ replicate (nat (dotplace - int (length digs))) CHR ''0''
                  else take (nat dotplace) digs);
               fracpart =
                 (if dotplace \<le> 0 then CHR ''.'' # replicate (nat (- dotplace)) CHR ''0'' @ digs
                  else if int (length digs) \<le> dotplace then []
                  else CHR ''.'' # drop (nat dotplace) digs);
               ex = (if leftdigits = dotplace then [] else CHR ''E'' # show_exp (leftdigits - dotplace))
           in (if s then ''-'' else []) @ intpart @ fracpart @ ex))"

text \<open>
  \<^verbatim>\<open>Decimal(value)\<close> on a string: white space is stripped, underscores are removed,
  and the rest must be an optional sign followed by digits with an optional point and an
  optional exponent, or by an infinity or a NaN (letters in either case). Anything else
  raises InvalidOperation.
\<close>

definition parse_sign :: "string \<Rightarrow> bool \<times> string" where
  "parse_sign s =
     (case s of
        [] \<Rightarrow> (False, [])
      | c # cs \<Rightarrow> if c = CHR ''-'' then (True, cs) else if c = CHR ''+'' then (False, cs) else (False, s))"

definition parse_exponent :: "string \<Rightarrow> int option" where
  "parse_exponent s =
     (case parse_sign s of
        (neg, ds) \<Rightarrow>
          if ds \<noteq> [] \<and> list_all is_digit ds
          then Some (if neg then - int (digits_val ds) else int (digits_val ds))
          else None)"

definition parse_finite :: "bool \<Rightarrow> string \<Rightarrow> decimal option" where
  "parse_finite sg s =
     (let intpart = takeWhile is_digit s;
          r1 = dropWhile is_digit s;
          has_dot = (case r1 of [] \<Rightarrow> False | c # cs \<Rightarrow> c = CHR ''.'');
          fracpart = (if has_dot then takeWhile is_digit (tl r1) else []);
          r2 = (if has_dot then dropWhile is_digit (tl r1) else r1)
      in if intpart = [] \<and> fracpart = [] then None
         else
          (case r2 of
             [] \<Rightarrow> Some (Finite sg (digits_val (intpart @ fracpart)) (- int (length fracpart)))
           | c # es \<Rightarrow>
               if to_lower c = CHR ''e'' then
                 (case parse_exponent es of
                    None \<Rightarrow> None
                  | Some x \<Rightarrow>
                      Some (Finite sg (digits_val (intpart @ fracpart)) (x - int (length fracpart))))
               else None))"

definition Decimal_of_str :: "string \<Rightarrow> error + decimal" where
  "Decimal_of_str v =
     (case parse_sign (filter (\<lambda>c. c \<noteq> CHR ''_'') (strip v)) of
        (sg, body) \<Rightarrow>
          (case parse_finite sg body of
             Some d \<Rightarrow> Inr d
           | None \<Rightarrow>
               let low = map to_lower body in
               if low = ''inf'' \<or> low = ''infinity'' then Inr (Infinity sg)
               else if take 3 low = ''nan'' \<and> list_all is_digit (drop 3 body)
                 then Inr (NaN sg False (digits_val (drop 3 body)))
               else if take 4 low = ''snan'' \<and> list_all is_digit (drop 4 body)
                 then Inr (NaN sg True (digits_val (drop 4 body)))
               else Inl InvalidOperation))"

section \<open>The csv module, excel dialect\<close>

text \<open>
  \<^verbatim>\<open>csv.reader\<close> with the default dialect: delimiter comma, quote character the double
  quote, doubled quotes inside quoted fields, no escape character, not strict. The reader
  is a state machine fed one character at a time and an end-of-line mark (\<open>None\<close>) after
  each line; without an escape character three of its states cannot be reached and are
  left out. The size limit on a single field (131072 characters unless changed) is not
  tracked.
\<close>

datatype parser_state =
  START_RECORD | START_FIELD | IN_FIELD | IN_QUOTED_FIELD | QUOTE_IN_QUOTED_FIELD | EAT_CRNL

record reader =
  state :: parser_state
  field :: string
  rfields :: "string list"

definition CR :: char where
  "CR = CHR 0x0D"

definition LF :: char where
  "LF = CHR 0x0A"

definition QUOTE :: char where
  "QUOTE = CHR 0x22"

definition COMMA :: char where
  "COMMA = CHR 0x2C"

definition parse_reset :: reader where
  "parse_reset = \<lparr>state = START_RECORD, field = [], rfields = []\<rparr>"

definition parse_save_field :: "reader \<Rightarrow> reader" where
  "parse_save_field rd = rd\<lparr>rfields := rfields rd @ [field rd], field := []\<rparr>"

definition parse_add_char :: "reader \<Rightarrow> char \<Rightarrow> reader" where
  "parse_add_char rd c = rd\<lparr>field := field rd @ [c]\<rparr>"

definition end_of_field :: "reader \<Rightarrow> char option \<Rightarrow> reader" where
  "end_of_field rd c =
     (parse_save_field rd)\<lparr>state := (if c = None then START_RECORD else EAT_CRNL)\<rparr>"

definition is_newline :: "char option \<Rightarrow> bool" where
  "is_newline c = (c = None \<or> c = Some LF \<or> c = Some CR)"

definition start_field :: "reader \<Rightarrow> char option \<Rightarrow> error + reader" where
  "start_field rd c =
     (if is_newline c then Inr (end_of_field rd c)
      else if c = Some QUOTE then Inr (rd\<lparr>state := IN_QUOTED_FIELD\<rparr>)
      else if c = Some COMMA then Inr ((parse_save_field rd)\<lparr>state := START_FIELD\<rparr>)
      else Inr ((parse_add_char rd (the c))\<lparr>state := IN_FIELD\<rparr>))"

definition parse_process_char :: "reader \<Rightarrow> char option \<Rightarrow> error + reader" where
  "parse_process_char rd c =
     (case state rd of
        START_RECORD \<Rightarrow>
          if c = None then Inr rd
          else if c = Some LF \<or> c = Some CR then Inr (rd\<lparr>state := EAT_CRNL\<rparr>)
          else start_field rd c
      | START_FIELD \<Rightarrow> start_field rd c
      | IN_FIELD \<Rightarrow>
          if is_newline c then Inr (end_of_field rd c)
          else if c = Some COMMA then Inr ((parse_save_field rd)\<lparr>state := START_FIELD\<rparr>)
          else Inr (parse_add_char rd (the c))
      | IN_QUOTED_FIELD \<Rightarrow>
          if c = None then Inr rd
          else if c = Some QUOTE then Inr (rd\<lparr>state := QUOTE_IN_QUOTED_FIELD\<rparr>)
          else Inr (parse_add_char rd (the c))
      | QUOTE_IN_QUOTED_FIELD \<Rightarrow>
          if c = Some QUOTE then Inr ((parse_add_char rd QUOTE)\<lparr>state := IN_QUOTED_FIELD\<rparr>)
          else if c = Some COMMA then Inr ((parse_save_field rd)\<lparr>state := START_FIELD\<rparr>)
          else if is_newline c then Inr (end_of_field rd c)
          else Inr ((parse_add_char rd (the c))\<lparr>state := IN_FIELD\<rparr>)
      | EAT_CRNL \<Rightarrow>
          if c = Some LF \<or> c = Some CR then Inr rd
          else if c = None then Inr (rd\<lparr>state := START_RECORD\<rparr>)
          else Inl CsvError)"

text \<open>
  The reader iterates over \<^verbatim>\<open>io.StringIO(csv_content)\<close>, whose lines end at each line
  feed; the end-of-line mark follows the last character of every line. A record is
  complete when the state is back at START_RECORD after a line. When the input ends inside
  a quoted field the record read so far is returned. The reader is a generator: the
  records read before an error are delivered first, so the result is the list of records
  and the error, if any, that ends it.
\<close>

fun reader_loop :: "reader \<Rightarrow> string \<Rightarrow> string list list \<times> error option" where
  "reader_loop rd [] =
     (if field rd \<noteq> [] \<or> state rd = IN_QUOTED_FIELD then ([rfields rd @ [field rd]], None)
      else ([], None))"
| "reader_loop rd (c # cs) =
     (case parse_process_char rd (Some c) of
        Inl e \<Rightarrow> ([], Some e)
      | Inr rd1 \<Rightarrow>
          if c = LF \<or> cs = [] then
            (case parse_process_char rd1 None of
               Inl e \<Rightarrow> ([], Some e)
             | Inr rd2 \<Rightarrow>
                 if state rd2 = START_RECORD then
                   (case reader_loop parse_reset cs of (rs, err) \<Rightarrow> (rfields rd2 # rs, err))
                 else reader_loop rd2 cs)
          else reader_loop rd1 cs)"

definition csv_reader :: "string \<Rightarrow> string list list \<times> error option" where
  "csv_reader csv_content = reader_loop parse_reset csv_content"

text \<open>
  \<^verbatim>\<open>csv.writer\<close> with minimal quoting: a field is quoted when it holds a comma, a quote,
  a carriage return or a line feed, and quotes are doubled. A record that would be empty
  (a single empty field) is written as a pair of quotes. Lines end in CR LF.
\<close>

definition needs_quoting :: "char \<Rightarrow> bool" where
  "needs_quoting c = (c = COMMA \<or> c = QUOTE \<or> c = CR \<or> c = LF)"

definition double_quotes :: "string \<Rightarrow> string" where
  "double_quotes f = concat (map (\<lambda>c. if c = QUOTE then [QUOTE, QUOTE] else [c]) f)"

definition join_append :: "string \<Rightarrow> string" where
  "join_append f = (if list_ex needs_quoting f then QUOTE # double_quotes f @ [QUOTE] else f)"

fun join_fields :: "string list \<Rightarrow> string" where
  "join_fields [] = []"
| "join_fields [f] = join_append f"
| "join_fields (f # g # fs) = join_append f @ COMMA # join_fields (g # fs)"

definition writerow :: "string list \<Rightarrow> string" where
  "writerow fs =
     (let rec = join_fields fs
      in (if fs \<noteq> [] \<and> rec = [] then [QUOTE, QUOTE] else rec) @ [CR, LF])"

section \<open>CSV ingest and emit\<close>

datatype pyval = PyNone | PyStr string | PyDec decimal

type_synonym pydict = "(string \<times> pyval) list"

definition CSV_COLUMN_MAP :: "(string \<times> string) list" where
  "CSV_COLUMN_MAP =
     [(''TCGplayer Id'', ''sku_id''),
      (''Product Line'', ''product_line''),
      (''Set Name'', ''set_name''),
      (''Product Name'', ''product_name''),
      (''Title'', ''title''),
      (''Number'', ''number''),
      (''Rarity'', ''rarity''),
      (''Condition'', ''condition''),
      (''TCG Market Price'', ''market_price''),
      (''TCG Direct Low'', ''direct_low''),
      (''TCG Low Price With Shipping'', ''tcg_low_with_shipping''),
      (''TCG Low Price'', ''tcg_low''),
      (''Total Quantity'', ''total_quantity''),
      (''Add to Quantity'', ''add_to_quantity''),
      (''TCG Marketplace Price'', ''current_listed_price''),
      (''Photo URL'', ''photo_url'')]"

definition PRICE_FIELDS :: "string list" where
  "PRICE_FIELDS =
     [''market_price'', ''direct_low'', ''tcg_low_with_shipping'', ''tcg_low'',
      ''current_listed_price'']"

text \<open>
  \<^verbatim>\<open>_to_decimal\<close>. The argument is \<open>None\<close> when the cell is Python's
  \<^verbatim>\<open>None\<close>, which \<^verbatim>\<open>csv.DictReader\<close> stores for the columns a short row lacks.
\<close>

definition to_decimal :: "string option \<Rightarrow> error + decimal option" where
  "to_decimal v =
     (case v of
        None \<Rightarrow> Inr None
      | Some s \<Rightarrow>
          if s = [] \<or> strip s = [] then Inr None
          else (case Decimal_of_str (strip s) of Inl e \<Rightarrow> Inl e | Inr d \<Rightarrow> Inr (Some d)))"

text \<open>
  \<^verbatim>\<open>raw_row.get(csv_col, "")\<close> on the dictionary that \<^verbatim>\<open>csv.DictReader\<close> builds from
  the header and one record: the cell under the last header column of that name, Python's
  \<^verbatim>\<open>None\<close> for a column that the record is too short to reach, the default for a name
  that is not in the header.
\<close>

definition raw_row_get :: "string list \<Rightarrow> string list \<Rightarrow> string \<Rightarrow> string option" where
  "raw_row_get fieldnames row csv_col =
     (if csv_col \<in> set (drop (length row) fieldnames) then None
      else (case map_of (rev (zip fieldnames row)) csv_col of Some v \<Rightarrow> Some v | None \<Rightarrow> Some []))"

definition price_value :: "decimal option \<Rightarrow> pyval" where
  "price_value v = (case v of None \<Rightarrow> PyNone | Some d \<Rightarrow> PyDec d)"

definition text_value :: "string option \<Rightarrow> pyval" where
  "text_value v = (case v of None \<Rightarrow> PyNone | Some s \<Rightarrow> PyStr s)"

text \<open>The inner loop of \<^verbatim>\<open>parse_csv\<close> (lines 112 to 118), over the column table.\<close>

fun map_columns :: "(string \<times> string) list \<Rightarrow> string list \<Rightarrow> string list \<Rightarrow> error + pydict" where
  "map_columns [] fieldnames row = Inr []"
| "map_columns ((csv_col, field_name) # cols) fieldnames row =
     (let raw_value = raw_row_get fieldnames row csv_col in
      if field_name \<in> set PRICE_FIELDS then
        (case to_decimal raw_value of
           Inl e \<Rightarrow> Inl e
         | Inr v \<Rightarrow>
            (case map_columns cols fieldnames row of
               Inl e \<Rightarrow> Inl e
             | Inr mapped_row \<Rightarrow> Inr ((field_name, price_value v) # mapped_row)))
      else
        (case map_columns cols fieldnames row of
           Inl e \<Rightarrow> Inl e
         | Inr mapped_row \<Rightarrow> Inr ((field_name, text_value raw_value) # mapped_row)))"

text \<open>
  The outer loop (lines 111 to 119): \<^verbatim>\<open>csv.DictReader\<close> skips empty records; an
  error of the reader surfaces when the loop reaches it.
\<close>

fun parse_rows :: "string list \<Rightarrow> string list list \<Rightarrow> error option \<Rightarrow> error + pydict list" where
  "parse_rows fieldnames [] err = (case err of None \<Rightarrow> Inr [] | Some e \<Rightarrow> Inl e)"
| "parse_rows fieldnames (row # others) err =
     (if row = [] then parse_rows fieldnames others err
      else
        (case map_columns CSV_COLUMN_MAP fieldnames row of
           Inl e \<Rightarrow> Inl e
         | Inr mapped_row \<Rightarrow>
            (case parse_rows fieldnames others err of
               Inl e \<Rightarrow> Inl e
             | Inr rows \<Rightarrow> Inr (mapped_row # rows))))"

definition parse_csv :: "string \<Rightarrow> error + pydict list" where
  "parse_csv csv_content =
     (case csv_reader csv_content of
        (records, err) \<Rightarrow>
          (case records of
             [] \<Rightarrow> (case err of None \<Rightarrow> Inr [] | Some e \<Rightarrow> Inl e)
           | fieldnames # others \<Rightarrow> parse_rows fieldnames others err))"

text \<open>
  \<^verbatim>\<open>generate_csv\<close>: the header row, then for every row the sixteen mapped fields in
  the order of the column table; \<^verbatim>\<open>None\<close> and a missing field are written as the
  empty string, a Decimal through \<^verbatim>\<open>str\<close>.
\<close>

definition csv_cell :: "pyval option \<Rightarrow> string" where
  "csv_cell v =
     (case v of
        None \<Rightarrow> []
      | Some PyNone \<Rightarrow> []
      | Some (PyDec d) \<Rightarrow> dec_str d
      | Some (PyStr s) \<Rightarrow> s)"

definition csv_row :: "pydict \<Rightarrow> string list" where
  "csv_row row = map (\<lambda>(csv_col, field_name). csv_cell (map_of row field_name)) CSV_COLUMN_MAP"

definition generate_csv :: "pydict list \<Rightarrow> string" where
  "generate_csv rows = concat (map writerow (map fst CSV_COLUMN_MAP # map csv_row rows))"

section \<open>The pricing calculator\<close>

datatype RepricingStrategy = MATCH_LOW | UNDERCUT | MATCH_MARKET

text \<open>
  The \<^verbatim>\<open>strategy\<close> argument of \<^verbatim>\<open>calculate_price\<close> is compared with the three
  members of the enumeration; Python lets a caller pass any other object, here a string.
\<close>

datatype strategy_value = Member RepricingStrategy | NonMember string

definition ABSOLUTE_MINIMUM :: decimal where
  "ABSOLUTE_MINIMUM = Finite False 1 (- 2)"

definition TWO_PLACES :: decimal where
  "TWO_PLACES = Finite False 1 (- 2)"

text \<open>\<^verbatim>\<open>undercut_pct or Decimal("0")\<close>: \<^verbatim>\<open>None\<close> and a zero are false.\<close>

definition or_decimal :: "decimal option \<Rightarrow> decimal \<Rightarrow> decimal" where
  "or_decimal v dflt = (case v of None \<Rightarrow> dflt | Some d \<Rightarrow> if dec_bool d then d else dflt)"

text \<open>The \<^verbatim>\<open>if\<close>/\<^verbatim>\<open>elif\<close>/\<^verbatim>\<open>else\<close> chain on the strategy (lines 75 to 84).\<close>

definition strategy_price ::
  "decimal \<Rightarrow> decimal \<Rightarrow> decimal \<Rightarrow> strategy_value \<Rightarrow> decimal option \<Rightarrow> error + decimal" where
  "strategy_price current_price tcg_low market_price strategy undercut_pct =
     (case strategy of
        Member MATCH_LOW \<Rightarrow> Inr tcg_low
      | Member UNDERCUT \<Rightarrow>
          (let pct = or_decimal undercut_pct (Finite False 0 0) in
           case dec_div pct (Finite False 100 0) of
             Inl e \<Rightarrow> Inl e
           | Inr q \<Rightarrow>
              (case dec_sub (Finite False 1 0) q of
                 Inl e \<Rightarrow> Inl e
               | Inr multiplier \<Rightarrow>
                  (case dec_mul tcg_low multiplier of
                     Inl e \<Rightarrow> Inl e
                   | Inr p \<Rightarrow> quantize p TWO_PLACES ROUND_HALF_UP)))
      | Member MATCH_MARKET \<Rightarrow> Inr market_price
      | NonMember other \<Rightarrow> Inr current_price)"

text \<open>Lines 86 to 88: the seller's floor.\<close>

definition enforce_floor :: "decimal option \<Rightarrow> decimal \<Rightarrow> error + decimal" where
  "enforce_floor floor_price new_price =
     (case floor_price of
        None \<Rightarrow> Inr new_price
      | Some fl \<Rightarrow>
         (case dec_lt new_price fl of
            Inl e \<Rightarrow> Inl e
          | Inr below \<Rightarrow> Inr (if below then fl else new_price)))"

text \<open>Lines 90 to 92: never below one cent.\<close>

definition enforce_minimum :: "decimal \<Rightarrow> error + decimal" where
  "enforce_minimum new_price =
     (case dec_lt new_price ABSOLUTE_MINIMUM of
        Inl e \<Rightarrow> Inl e
      | Inr below \<Rightarrow> Inr (if below then ABSOLUTE_MINIMUM else new_price))"

definition calculate_price ::
  "decimal \<Rightarrow> decimal \<Rightarrow> decimal \<Rightarrow> strategy_value \<Rightarrow> decimal option \<Rightarrow> decimal option
     \<Rightarrow> error + decimal" where
  "calculate_price current_price tcg_low market_price strategy undercut_pct floor_price =
     (case strategy_price current_price tcg_low market_price strategy undercut_pct of
        Inl e \<Rightarrow> Inl e
      | Inr p0 \<Rightarrow>
         (case enforce_floor floor_price p0 of
            Inl e \<Rightarrow> Inl e
          | Inr p1 \<Rightarrow>
             (case enforce_minimum p1 of
                Inl e \<Rightarrow> Inl e
              | Inr p2 \<Rightarrow> quantize p2 TWO_PLACES ROUND_HALF_UP)))"

section \<open>The alert evaluator\<close>

definition pct_change :: "decimal \<Rightarrow> decimal \<Rightarrow> error + decimal" where
  "pct_change old_price new_price =
     (case dec_sub new_price old_price of
        Inl e \<Rightarrow> Inl e
      | Inr d \<Rightarrow>
         (case dec_div d old_price of
            Inl e \<Rightarrow> Inl e
          | Inr q \<Rightarrow> dec_mul q (Finite False 100 0)))"

definition evaluate_alert :: "decimal \<Rightarrow> decimal \<Rightarrow> decimal \<Rightarrow> string \<Rightarrow> error + bool" where
  "evaluate_alert old_price new_price threshold_pct direction =
     (case dec_eq old_price new_price of
        Inl e \<Rightarrow> Inl e
      | Inr same \<Rightarrow>
          if same then Inr False
          else
           (case dec_eq old_price (Finite False 0 0) of
              Inl e \<Rightarrow> Inl e
            | Inr zero \<Rightarrow>
                if zero then Inr (direction = ''up'' \<or> direction = ''both'')
                else
                 (case pct_change old_price new_price of
                    Inl e \<Rightarrow> Inl e
                  | Inr pct \<Rightarrow>
                      if direction = ''up'' then dec_ge pct threshold_pct
                      else if direction = ''down'' then
                        (case dec_neg threshold_pct of
                           Inl e \<Rightarrow> Inl e
                         | Inr nt \<Rightarrow> dec_le pct nt)
                      else
                        (case dec_abs pct of
                           Inl e \<Rightarrow> Inl e
                         | Inr a \<Rightarrow> dec_ge a threshold_pct))))"

section \<open>The reprice routes\<close>

text \<open>\<^verbatim>\<open>RepricingStrategy[strategy]\<close>: lookup of a member by name, KeyError otherwise.\<close>

definition strategy_by_name :: "string \<Rightarrow> error + RepricingStrategy" where
  "strategy_by_name name =
     (if name = ''MATCH_LOW'' then Inr MATCH_LOW
      else if name = ''UNDERCUT'' then Inr UNDERCUT
      else if name = ''MATCH_MARKET'' then Inr MATCH_MARKET
      else Inl KeyError)"

text \<open>\<^verbatim>\<open>Decimal(s) if s else None\<close> on a form field.\<close>

definition optional_decimal :: "string \<Rightarrow> error + decimal option" where
  "optional_decimal s =
     (if s = [] then Inr None
      else (case Decimal_of_str s of Inl e \<Rightarrow> Inl e | Inr d \<Rightarrow> Inr (Some d)))"

text \<open>
  \<^verbatim>\<open>row.get(name) or Decimal("0")\<close>. \<^verbatim>\<open>parse_csv\<close> stores \<^verbatim>\<open>None\<close> or a
  Decimal in a price field; a non-empty string there, which it never stores, would fail
  later in the arithmetic and is a TypeError here.
\<close>

definition price_or_zero :: "pydict \<Rightarrow> string \<Rightarrow> error + decimal" where
  "price_or_zero row name =
     (case map_of row name of
        None \<Rightarrow> Inr (Finite False 0 0)
      | Some PyNone \<Rightarrow> Inr (Finite False 0 0)
      | Some (PyDec d) \<Rightarrow> Inr (if dec_bool d then d else Finite False 0 0)
      | Some (PyStr s) \<Rightarrow> if s = [] then Inr (Finite False 0 0) else Inl TypeError)"

text \<open>\<^verbatim>\<open>row[key] = value\<close>: replace in place, or append a new key.\<close>

fun dict_set :: "pydict \<Rightarrow> string \<Rightarrow> pyval \<Rightarrow> pydict" where
  "dict_set [] k v = [(k, v)]"
| "dict_set ((k', v') # kvs) k v = (if k' = k then (k, v) # kvs else (k', v') # dict_set kvs k v)"

text \<open>
  The body shared by both loops (lines 49 to 63 and 100 to 114): the new price of a row,
  returned with the current price it was computed from.
\<close>

definition row_new_price ::
  "pydict \<Rightarrow> RepricingStrategy \<Rightarrow> decimal option \<Rightarrow> decimal option \<Rightarrow> error + decimal \<times> decimal" where
  "row_new_price row strat undercut floor_price =
     (case price_or_zero row ''tcg_low'' of
        Inl e \<Rightarrow> Inl e
      | Inr tcg_low \<Rightarrow>
         (case price_or_zero row ''market_price'' of
            Inl e \<Rightarrow> Inl e
          | Inr market \<Rightarrow>
             (case price_or_zero row ''current_listed_price'' of
                Inl e \<Rightarrow> Inl e
              | Inr current \<Rightarrow>
                  if dec_bool tcg_low \<or> dec_bool market then
                    (case calculate_price current tcg_low market (Member strat) undercut floor_price of
                       Inl e \<Rightarrow> Inl e
                     | Inr new_price \<Rightarrow> Inr (new_price, current))
                  else Inr (current, current))))"

text \<open>Lines 65 to 70 of \<^verbatim>\<open>reprice_upload\<close>: the difference and the result row.\<close>

definition upload_row ::
  "pydict \<Rightarrow> RepricingStrategy \<Rightarrow> decimal option \<Rightarrow> decimal option \<Rightarrow> error + pydict" where
  "upload_row row strat undercut floor_price =
     (case row_new_price row strat undercut floor_price of
        Inl e \<Rightarrow> Inl e
      | Inr (new_price, current) \<Rightarrow>
         (case (if dec_bool current then dec_sub new_price current else Inr (Finite False 0 0)) of
            Inl e \<Rightarrow> Inl e
          | Inr diff \<Rightarrow>
              Inr (dict_set (dict_set row ''new_price'' (PyDec new_price)) ''diff'' (PyDec diff))))"

fun upload_rows ::
  "pydict list \<Rightarrow> RepricingStrategy \<Rightarrow> decimal option \<Rightarrow> decimal option \<Rightarrow> error + pydict list" where
  "upload_rows [] strat undercut floor_price = Inr []"
| "upload_rows (row # rows) strat undercut floor_price =
     (case upload_row row strat undercut floor_price of
        Inl e \<Rightarrow> Inl e
      | Inr res \<Rightarrow>
         (case upload_rows rows strat undercut floor_price of
            Inl e \<Rightarrow> Inl e
          | Inr results \<Rightarrow> Inr (res # results)))"

text \<open>\<^verbatim>\<open>reprice_upload\<close>: the result rows handed to the template.\<close>

definition reprice_upload :: "string \<Rightarrow> string \<Rightarrow> string \<Rightarrow> string \<Rightarrow> error + pydict list" where
  "reprice_upload csv_text strategy undercut_pct floor_price =
     (case parse_csv csv_text of
        Inl e \<Rightarrow> Inl e
      | Inr rows \<Rightarrow>
         (case strategy_by_name strategy of
            Inl e \<Rightarrow> Inl e
          | Inr strat \<Rightarrow>
             (case optional_decimal undercut_pct of
                Inl e \<Rightarrow> Inl e
              | Inr undercut \<Rightarrow>
                 (case optional_decimal floor_price of
                    Inl e \<Rightarrow> Inl e
                  | Inr fl \<Rightarrow> upload_rows rows strat undercut fl))))"

text \<open>
  \<^verbatim>\<open>reprice_download\<close>: every row gets a \<^verbatim>\<open>new_price\<close> entry, then the rows are
  emitted.
\<close>

definition download_row ::
  "pydict \<Rightarrow> RepricingStrategy \<Rightarrow> decimal option \<Rightarrow> decimal option \<Rightarrow> error + pydict" where
  "download_row row strat undercut floor_price =
     (case row_new_price row strat undercut floor_price of
        Inl e \<Rightarrow> Inl e
      | Inr (new_price, current) \<Rightarrow> Inr (dict_set row ''new_price'' (PyDec new_price)))"

fun download_rows ::
  "pydict list \<Rightarrow> RepricingStrategy \<Rightarrow> decimal option \<Rightarrow> decimal option \<Rightarrow> error + pydict list" where
  "download_rows [] strat undercut floor_price = Inr []"
| "download_rows (row # rows) strat undercut floor_price =
     (case download_row row strat undercut floor_price of
        Inl e \<Rightarrow> Inl e
      | Inr res \<Rightarrow>
         (case download_rows rows strat undercut floor_price of
            Inl e \<Rightarrow> Inl e
          | Inr results \<Rightarrow> Inr (res # results)))"

definition reprice_download :: "string \<Rightarrow> string \<Rightarrow> string \<Rightarrow> string \<Rightarrow> error + string" where
  "reprice_download original_csv strategy undercut_pct floor_price =
     (case parse_csv original_csv of
        Inl e \<Rightarrow> Inl e
      | Inr rows \<Rightarrow>
         (case strategy_by_name strategy of
            Inl e \<Rightarrow> Inl e
          | Inr strat \<Rightarrow>
             (case optional_decimal undercut_pct of
                Inl e \<Rightarrow> Inl e
              | Inr undercut \<Rightarrow>
                 (case optional_decimal floor_price of
                    Inl e \<Rightarrow> Inl e
                  | Inr fl \<Rightarrow>
                     (case download_rows rows strat undercut fl of
                        Inl e \<Rightarrow> Inl e
                      | Inr rows' \<Rightarrow> Inr (generate_csv rows'))))))"

section \<open>Numbers behind the Decimals\<close>

text \<open>
  The claims speak of prices as numbers. \<open>dec_val\<close> above gives the rational number of a
  finite Decimal; the following functions state the claims in these numbers.
  \<open>round_half_up2\<close> rounds a rational to two fractional digits, a tie going away from zero;
  \<open>scaled\<close> is the integer that a coefficient stands for at a smaller exponent;
  \<open>representable\<close> says that a coefficient and an exponent fit the context, so that
  \<^verbatim>\<open>_fix\<close> leaves them alone.
\<close>

definition round_half_up2 :: "rat \<Rightarrow> rat" where
  "round_half_up2 x = sgn x * of_int \<lfloor>\<bar>x\<bar> * 100 + 1 / 2\<rfloor> / 100"

definition scaled :: "bool \<Rightarrow> nat \<Rightarrow> int \<Rightarrow> int \<Rightarrow> int" where
  "scaled s c e m = signed_int s c * 10 ^ nat (e - m)"

definition representable :: "nat \<Rightarrow> int \<Rightarrow> bool" where
  "representable c e =
     (if c = 0 then Etiny \<le> e \<and> e \<le> Emax
      else c < 10 ^ prec \<and> Etiny \<le> e \<and> int (ndigits c) + e - int prec \<le> Etop)"

section \<open>Notions used in the claims about rows\<close>

text \<open>
  The sixteen internal field names of the column table; two rows that agree on them; and a
  price field that is absent or zero (a missing key, \<^verbatim>\<open>None\<close>, an empty string or a
  Decimal zero: the values that Python's \<^verbatim>\<open>or\<close> replaces by the default).
\<close>

definition mapped_fields :: "string list" where
  "mapped_fields = map snd CSV_COLUMN_MAP"

definition same_mapped_fields :: "pydict \<Rightarrow> pydict \<Rightarrow> bool" where
  "same_mapped_fields row row' = list_all (\<lambda>f. map_of row f = map_of row' f) mapped_fields"

definition absent_or_zero :: "pyval option \<Rightarrow> bool" where
  "absent_or_zero v =
     (case v of
        None \<Rightarrow> True
      | Some PyNone \<Rightarrow> True
      | Some (PyDec d) \<Rightarrow> \<not> dec_bool d
      | Some (PyStr s) \<Rightarrow> s = [])"

section \<open>Evaluating the model on literals\<close>

lemma ndigits_numeral [simp]:
  "ndigits (numeral k) = (if numeral k < (10::nat) then 1 else Suc (ndigits (numeral k div 10)))"
  by (rule ndigits.simps)

lemma ndigits_0 [simp]: "ndigits 0 = 1"
  by (simp add: ndigits.simps)

lemma ndigits_1 [simp]: "ndigits (Suc 0) = 1"
  by (simp add: ndigits.simps)

lemma strip_zeros_numeral [simp]:
  "strip_zeros (numeral c) e ideal =
     (if e < ideal \<and> (numeral c :: nat) mod 10 = 0
      then strip_zeros (numeral c div 10) (e + 1) ideal
      else (numeral c, e))"
  by (rule strip_zeros.simps)

lemma strip_zeros_1 [simp]: "strip_zeros (Suc 0) e ideal = (Suc 0, e)"
  by (simp add: strip_zeros.simps)

lemmas dec_eval =
  prec_def Emax_def Emin_def Etiny_def Etop_def round_coeff_def is_snan_def is_nan_def
  is_finite_def dec_bool_def copy_negate_def copy_abs_def fix_nan_def dec_fix_def
  check_nans_def check_nan_def dec_rescale_def normalize_def add_finite_def dec_add_def
  dec_sub_def dec_mul_def div_finite_def dec_div_def dec_neg_def dec_pos_def dec_sign_def
  dec_abs_def adjusted_def quantize_def signed_int_def inf_rank_def dec_cmp_def dec_eq_def
  dec_lt_def dec_le_def dec_ge_def Let_def ABSOLUTE_MINIMUM_def TWO_PLACES_def or_decimal_def

lemmas price_eval =
  calculate_price_def strategy_price_def enforce_floor_def enforce_minimum_def

section \<open>Values, comparisons and rounding\<close>

lemma pow10_pos [simp]: "0 < pow10 e"
  by (simp add: pow10_def)

lemma pow10_nat [simp]: "pow10 (int n) = 10 ^ n"
  by (simp add: pow10_def)

lemma pow10_add: "pow10 (a + b) = pow10 a * pow10 b"
proof -
  have "\<And>e. pow10 e = 10 powi e"
    unfolding pow10_def power_int_def by (simp add: power_one_over)
  then show ?thesis by (simp add: power_int_add)
qed

lemma pow10_diff_nat: "m \<le> e \<Longrightarrow> pow10 e = 10 ^ nat (e - m) * pow10 m"
  using pow10_add [of "e - m" m] by (simp add: pow10_def)

lemma ndigits_le_iff: "0 < k \<Longrightarrow> ndigits n \<le> k \<longleftrightarrow> n < 10 ^ k"
proof (induction n arbitrary: k rule: ndigits.induct)
  case (1 n)
  show ?case
  proof (cases "n < 10")
    case True
    have "(10::nat) ^ 1 \<le> 10 ^ k" using 1(2) by (intro power_increasing) auto
    with True 1(2) show ?thesis by (simp add: ndigits.simps [of n])
  next
    case False
    show ?thesis
    proof (cases k)
      case 0 with 1(2) show ?thesis by simp
    next
      case (Suc j)
      show ?thesis
      proof (cases "j = 0")
        case True
        with False Suc show ?thesis by (simp add: ndigits.simps [of n] ndigits.simps [of "n div 10"])
      next
        case jpos: False
        have "ndigits (n div 10) \<le> j \<longleftrightarrow> n div 10 < 10 ^ j"
          using 1(1) [OF False, of j] jpos by simp
        moreover have "n div 10 < 10 ^ j \<longleftrightarrow> n < 10 ^ Suc j"
          by (simp add: less_mult_imp_div_less div_less_iff_less_mult mult.commute)
        ultimately show ?thesis using False Suc by (simp add: ndigits.simps [of n])
      qed
    qed
  qed
qed

lemma ndigits_pos [simp]: "0 < ndigits n"
  by (subst ndigits.simps) simp

lemma pow10_nonzero [simp]: "pow10 e \<noteq> 0"
  by (metis pow10_pos order_less_irrefl)

lemma dec_val_scaled:
  "m \<le> e \<Longrightarrow> dec_val (Finite s c e) = of_int (scaled s c e m) * pow10 m"
  by (simp add: dec_val_def scaled_def signed_int_def pow10_diff_nat [of m e])

lemma dec_cmp_finite:
  "dec_cmp (Finite s1 c1 e1) (Finite s2 c2 e2) =
     (if dec_val (Finite s1 c1 e1) < dec_val (Finite s2 c2 e2) then - 1
      else if dec_val (Finite s1 c1 e1) = dec_val (Finite s2 c2 e2) then 0 else 1)"
proof -
  define m where "m = min e1 e2"
  define x where "x = scaled s1 c1 e1 m"
  define y where "y = scaled s2 c2 e2 m"
  have vx: "dec_val (Finite s1 c1 e1) = of_int x * pow10 m"
    unfolding x_def by (rule dec_val_scaled) (simp add: m_def)
  have vy: "dec_val (Finite s2 c2 e2) = of_int y * pow10 m"
    unfolding y_def by (rule dec_val_scaled) (simp add: m_def)
  have lt: "dec_val (Finite s1 c1 e1) < dec_val (Finite s2 c2 e2) \<longleftrightarrow> x < y"
    by (simp add: vx vy)
  have eq: "dec_val (Finite s1 c1 e1) = dec_val (Finite s2 c2 e2) \<longleftrightarrow> x = y"
    by (simp add: vx vy)
  have "dec_cmp (Finite s1 c1 e1) (Finite s2 c2 e2) = (if x < y then - 1 else if x = y then 0 else 1)"
    by (simp add: dec_cmp_def Let_def x_def y_def m_def scaled_def)
  then show ?thesis by (simp add: lt eq)
qed

lemma dec_lt_finite:
  "dec_lt (Finite s1 c1 e1) (Finite s2 c2 e2) = Inr (dec_val (Finite s1 c1 e1) < dec_val (Finite s2 c2 e2))"
  by (simp add: dec_lt_def is_nan_def dec_cmp_finite)




lemma dec_fix_representable:
  assumes "representable c e"
  shows "dec_fix (Finite s c e) = Inr (Finite s c e)"
proof (cases "c = 0")
  case True
  with assms show ?thesis by (simp add: dec_fix_def representable_def)
next
  case False
  with assms have c: "c < 10 ^ prec" and e: "Etiny \<le> e" and t: "int (ndigits c) + e - int prec \<le> Etop"
    by (simp_all add: representable_def)
  have "ndigits c \<le> prec" using c ndigits_le_iff [of prec c] by (simp add: prec_def)
  then have "int (ndigits c) + e - int prec \<le> e" by simp
  with e have b: "\<not> e < max (int (ndigits c) + e - int prec) Etiny" by simp
  have a: "\<not> Etop < int (ndigits c) + e - int prec" using t by simp
  show ?thesis unfolding dec_fix_def using False a b by (simp add: Let_def)
qed

lemma quantize_two_places:
  assumes "quantize (Finite s c e) TWO_PLACES ROUND_HALF_UP = Inr r"
  shows "r = Finite s (if - 2 \<le> e then c * 10 ^ nat (e + 2) else round_coeff ROUND_HALF_UP c (nat (- 2 - e))) (- 2)"
proof (cases "c = 0")
  case True
  with assms show ?thesis
    by (simp add: quantize_def TWO_PLACES_def check_nans_def is_snan_def is_nan_def dec_fix_def
        Etiny_def Emax_def Emin_def prec_def round_coeff_def)
next
  case False
  define c' where "c' = (if - 2 \<le> e then c * 10 ^ nat (e + 2) else round_coeff ROUND_HALF_UP c (nat (- 2 - e)))"
  have resc: "dec_rescale (Finite s c e) (- 2) ROUND_HALF_UP = Finite s c' (- 2)"
    using False by (auto simp add: dec_rescale_def c'_def)
  have nd: "ndigits c' \<le> prec" and fx: "dec_fix (Finite s c' (- 2)) = Inr r"
    using assms False resc
    by (auto simp add: quantize_def TWO_PLACES_def check_nans_def is_snan_def is_nan_def
        Etiny_def Emax_def Emin_def prec_def split: if_splits)
  have "c' < 10 ^ prec" using nd ndigits_le_iff [of prec c'] by (simp add: prec_def)
  then have "representable c' (- 2)"
    using nd by (simp add: representable_def Etiny_def Emin_def Emax_def Etop_def prec_def)
  with fx show ?thesis by (simp add: dec_fix_representable c'_def)
qed


lemma half_up_div:
  fixes c P :: nat
  assumes "0 < P"
  shows "(2 * c + P) div (2 * P) = c div P + (if P \<le> 2 * (c mod P) then 1 else 0)"
proof -
  define q where "q = c div P"
  define m where "m = c mod P"
  have c: "c = q * P + m" and m: "m < P" using assms by (simp_all add: q_def m_def)
  have e1: "2 * c + P = (2 * m + P) + q * (2 * P)" by (simp add: c algebra_simps)
  have e2: "((2 * m + P) + q * (2 * P)) div (2 * P) = q + (2 * m + P) div (2 * P)"
    using assms by (intro div_mult_self1) simp
  have "(2 * c + P) div (2 * P) = q + (2 * m + P) div (2 * P)"
    unfolding e1 by (rule e2)
  moreover have "(2 * m + P) div (2 * P) = (if P \<le> 2 * m then 1 else 0)"
  proof (cases "P \<le> 2 * m")
    case True
    then have "2 * P \<le> 2 * m + P" "2 * m + P < 2 * (2 * P)" using m by simp_all
    then have "(2 * m + P) div (2 * P) = 1"
      by (intro div_nat_eqI) simp_all
    with True show ?thesis by simp
  next
    case False
    then have "2 * m + P < 2 * P" by simp
    with False show ?thesis by simp
  qed
  ultimately show ?thesis by (simp add: q_def m_def)
qed

lemma round_coeff_half_up_floor:
  "of_nat (round_coeff ROUND_HALF_UP c k) = \<lfloor>(of_nat c :: rat) / 10 ^ k + 1 / 2\<rfloor>"
proof -
  have "(of_nat c :: rat) / 10 ^ k + 1 / 2 = of_int (int (2 * c + 10 ^ k)) / of_int (int (2 * 10 ^ k))"
    by (simp add: field_simps)
  then have "\<lfloor>(of_nat c :: rat) / 10 ^ k + 1 / 2\<rfloor> = int (2 * c + 10 ^ k) div int (2 * 10 ^ k)"
    by (simp only: floor_divide_of_int_eq)
  also have "\<dots> = int ((2 * c + 10 ^ k) div (2 * 10 ^ k))"
    by (simp only: zdiv_int)
  also have "\<dots> = int (round_coeff ROUND_HALF_UP c k)"
    using half_up_div [of "10 ^ k" c] by (simp add: round_coeff_def Let_def)
  finally show ?thesis by simp
qed

lemma abs_pow10 [simp]: "\<bar>pow10 e\<bar> = pow10 e"
  by (simp add: abs_of_pos)

lemma sgn_pow10 [simp]: "sgn (pow10 e) = 1"
  by simp

lemma pow10_m2: "pow10 (- 2) = 1 / 100"
  by (simp add: pow10_def)

lemma quantize_two_places_val:
  assumes "quantize (Finite s c e) TWO_PLACES ROUND_HALF_UP = Inr r"
  shows "dec_val r = round_half_up2 (dec_val (Finite s c e))"
proof -
  define c' where "c' = (if - 2 \<le> e then c * 10 ^ nat (e + 2) else round_coeff ROUND_HALF_UP c (nat (- 2 - e)))"
  have r: "r = Finite s c' (- 2)" using quantize_two_places [OF assms] by (simp add: c'_def)
  have key: "(of_nat c' :: int) = \<lfloor>(of_nat c :: rat) * pow10 e * 100 + 1 / 2\<rfloor>"
  proof (cases "- 2 \<le> e")
    case True
    have two: "pow10 2 = 100" by (simp add: pow10_def)
    have "pow10 e * 100 = pow10 (e + 2)" by (simp only: pow10_add two)
    also have "\<dots> = 10 ^ nat (e + 2)" using True by (simp add: pow10_def)
    finally have "(of_nat c :: rat) * pow10 e * 100 = of_int (int (c * 10 ^ nat (e + 2)))"
      by (simp add: mult.assoc)
    then have "\<lfloor>(of_nat c :: rat) * pow10 e * 100 + 1 / 2\<rfloor> = int (c * 10 ^ nat (e + 2))"
      by (simp only: floor_add_int [symmetric]) linarith
    with True show ?thesis by (simp add: c'_def)
  next
    case False
    have "pow10 e * pow10 (- 2 - e) = pow10 (- 2)" by (simp add: pow10_add [symmetric])
    moreover have "pow10 (- 2 - e) = 10 ^ nat (- 2 - e)" using False by (simp add: pow10_def)
    ultimately have "pow10 e * 100 = 1 / 10 ^ nat (- 2 - e)"
      by (simp add: pow10_m2 field_simps)
    then have "(of_nat c :: rat) * pow10 e * 100 = of_nat c / 10 ^ nat (- 2 - e)"
      by (simp add: mult.assoc)
    with False show ?thesis by (simp add: c'_def round_coeff_half_up_floor)
  qed
  have abs: "\<bar>dec_val (Finite s c e)\<bar> = of_nat c * pow10 e"
    by (simp add: dec_val_def abs_mult)
  have sg: "sgn (dec_val (Finite s c e)) = (if c = 0 then 0 else if s then - 1 else 1)"
    by (simp add: dec_val_def sgn_mult)
  have c0: "c = 0 \<Longrightarrow> c' = 0" by (simp add: c'_def round_coeff_def)
  show ?thesis
  proof (cases "c = 0")
    case True
    then show ?thesis using c0 by (simp add: r dec_val_def round_half_up2_def)
  next
    case False
    have "dec_val r = (if s then - 1 else 1) * of_int (of_nat c') / 100"
      by (simp add: r dec_val_def pow10_m2)
    also have "\<dots> = round_half_up2 (dec_val (Finite s c e))"
      unfolding round_half_up2_def abs sg key using False by simp
    finally show ?thesis .
  qed
qed


lemma pow10_nonneg [simp]: "0 \<le> pow10 e"
  using pow10_pos [of e] by (rule less_imp_le)

lemma dec_val_neg_le: "dec_val (Finite True c e) \<le> 0"
  by (simp add: dec_val_def)

lemma dec_val_one_cent [simp]: "dec_val (Finite False (Suc 0) (- 2)) = 1 / 100"
  by (simp add: dec_val_def pow10_m2)

lemma dec_val_min [simp]: "dec_val ABSOLUTE_MINIMUM = 1 / 100"
  by (simp add: ABSOLUTE_MINIMUM_def)

lemma dec_lt_min:
  "dec_lt (Finite s c e) ABSOLUTE_MINIMUM = Inr (dec_val (Finite s c e) < 1 / 100)"
  by (simp add: ABSOLUTE_MINIMUM_def dec_lt_finite)

lemma is_finite_min [simp]: "is_finite ABSOLUTE_MINIMUM"
  by (simp add: ABSOLUTE_MINIMUM_def is_finite_def)

lemma is_finite_Finite [simp]: "is_finite (Finite s c e)"
  by (simp add: is_finite_def)

lemma enforce_minimum_cases:
  assumes "enforce_minimum p = Inr p2"
  shows "p2 = Infinity False \<or> (\<exists>c e. p2 = Finite False c e \<and> 1 / 100 \<le> dec_val p2)"
proof (cases p)
  case (Finite s c e)
  show ?thesis
  proof (cases "dec_val p < 1 / 100")
    case True
    with assms Finite have "p2 = ABSOLUTE_MINIMUM"
      by (simp add: enforce_minimum_def dec_lt_min)
    then show ?thesis by (simp add: ABSOLUTE_MINIMUM_def)
  next
    case False
    with assms Finite have p2: "p2 = p"
      by (simp add: enforce_minimum_def dec_lt_min)
    have "\<not> s" using False Finite dec_val_neg_le [of c e] by (cases s) auto
    with False Finite p2 show ?thesis by simp
  qed
next
  case (Infinity s)
  with assms show ?thesis
    by (cases s) (auto simp add: enforce_minimum_def ABSOLUTE_MINIMUM_def dec_lt_def is_nan_def
        dec_cmp_def inf_rank_def dec_val_def pow10_m2)
next
  case (NaN s sig p)
  with assms show ?thesis by (simp add: enforce_minimum_def dec_lt_def is_nan_def)
qed

lemma enforce_minimum_val:
  assumes "enforce_minimum (Finite s c e) = Inr p2"
  shows "is_finite p2 \<and> dec_val p2 = max (dec_val (Finite s c e)) (1 / 100)"
  using assms
  by (auto simp add: enforce_minimum_def dec_lt_min max_def split: if_splits)

lemma quantize_infinity [simp]: "quantize (Infinity s) TWO_PLACES r = Inl InvalidOperation"
  by (simp add: quantize_def TWO_PLACES_def check_nans_def is_snan_def is_nan_def)

lemma round_half_up2_ge:
  assumes "1 / 100 \<le> x"
  shows "1 / 100 \<le> round_half_up2 x"
proof -
  have pos: "0 < x" using assms by simp
  have "(1::rat) \<le> x * 100" using assms by simp
  then have "of_int 1 \<le> \<bar>x\<bar> * 100 + 1 / 2" using pos by simp
  then have "1 \<le> \<lfloor>\<bar>x\<bar> * 100 + 1 / 2\<rfloor>" by (simp only: le_floor_iff)
  then have "(1::rat) \<le> of_int \<lfloor>\<bar>x\<bar> * 100 + 1 / 2\<rfloor>" by linarith
  then show ?thesis using pos by (simp add: round_half_up2_def)
qed

lemma calculate_price_min_aux:
  assumes "enforce_minimum p1 = Inr p2" and "quantize p2 TWO_PLACES ROUND_HALF_UP = Inr r"
  shows "(\<exists>c. r = Finite False c (- 2) \<and> 1 \<le> c) \<and> 1 / 100 \<le> dec_val r"
proof -
  from enforce_minimum_cases [OF assms(1)] assms(2)
  obtain c e where p2: "p2 = Finite False c e" and ge: "1 / 100 \<le> dec_val p2"
    by auto
  from assms(2) p2 obtain c' where r: "r = Finite False c' (- 2)"
    using quantize_two_places [of False c e r] by simp
  have "dec_val r = round_half_up2 (dec_val p2)"
    using quantize_two_places_val [of False c e r] assms(2) p2 by simp
  with ge have v: "1 / 100 \<le> dec_val r" using round_half_up2_ge by simp
  then have "1 \<le> c'" by (cases "c' = 0") (simp_all add: r dec_val_def pow10_m2)
  with r v show ?thesis by simp
qed

lemma enforce_floor_val:
  assumes "enforce_floor fl (Finite s c e) = Inr p1"
    and "case fl of None \<Rightarrow> True | Some f \<Rightarrow> is_finite f"
  shows "is_finite p1 \<and>
         dec_val p1 = (case fl of None \<Rightarrow> dec_val (Finite s c e)
                       | Some f \<Rightarrow> max (dec_val (Finite s c e)) (dec_val f))"
proof (cases fl)
  case None
  with assms show ?thesis by (auto simp add: enforce_floor_def)
next
  case (Some f)
  with assms(2) obtain s' c' e' where f: "f = Finite s' c' e'"
    by (cases f) (simp_all add: is_finite_def)
  with assms(1) Some show ?thesis
    by (auto simp add: enforce_floor_def dec_lt_finite max_def split: if_splits)
qed

section \<open>Results of the arithmetic are finite and fit the context\<close>













lemma dec_val_zero [simp]: "dec_val (Finite s 0 e) = 0"
  by (simp add: dec_val_def)

lemma pow10_0: "pow10 0 = 1"
  by (simp add: pow10_def)


section \<open>Claims about the pricing calculator\<close>

text \<open>
  C2: whatever the inputs, a value returned by \<^verbatim>\<open>calculate_price\<close> is a finite Decimal
  with two fractional digits, not negative, and at least 0.01. (Calls that raise, for
  instance on a NaN or on a price too long for the context, return no value.)
\<close>

theorem calculate_price_at_least_one_cent:
  assumes "calculate_price current_price tcg_low market_price strategy undercut_pct floor_price = Inr r"
  shows "(\<exists>c. r = Finite False c (- 2) \<and> 1 \<le> c) \<and> 1 / 100 \<le> dec_val r"
proof -
  from assms obtain p1 p2 where "enforce_minimum p1 = Inr p2"
    and "quantize p2 TWO_PLACES ROUND_HALF_UP = Inr r"
    by (auto simp add: calculate_price_def split: sum.splits)
  then show ?thesis by (rule calculate_price_min_aux)
qed

theorem calculate_price_at_least_one_cent_witness:
  "calculate_price (Finite False 10 (- 2)) (Finite False 5 (- 3)) (Finite False 1 (- 2))
     (Member MATCH_LOW) None None = Inr (Finite False 1 (- 2))
   \<and> 1 / 100 \<le> dec_val (Finite False 1 (- 2))"
proof -
  have h: "calculate_price (Finite False 10 (- 2)) (Finite False 5 (- 3)) (Finite False 1 (- 2))
     (Member MATCH_LOW) None None = Inr (Finite False 1 (- 2))"
    by (simp add: price_eval dec_eval)
  from calculate_price_at_least_one_cent [OF h] h show ?thesis by simp
qed


text \<open>
  C4: regardless of strategy, the candidate is post-processed in a fixed order. For a
  finite candidate and a finite or absent floor: first the floor (the larger of the
  candidate and the floor), second the one-cent minimum (the larger of that and 0.01),
  third the rounding, half-up to two places, of the clamped value. In particular a floor
  below 0.01 is accepted and the minimum still applies after it (lowest price 0.00 with
  floor 0.001 gives 0.01), and lowest price 0.50 with floor 1.00 under MATCH_LOW gives
  1.00, whatever the current price.
\<close>

theorem calculate_price_post_processing:
  "(\<forall>current_price tcg_low market_price strategy undercut_pct floor_price cand r.
      strategy_price current_price tcg_low market_price strategy undercut_pct = Inr cand \<and>
      is_finite cand \<and> (case floor_price of None \<Rightarrow> True | Some f \<Rightarrow> is_finite f) \<and>
      calculate_price current_price tcg_low market_price strategy undercut_pct floor_price = Inr r
      \<longrightarrow>
      (\<exists>p1 p2.
         enforce_floor floor_price cand = Inr p1 \<and>
         dec_val p1 = (case floor_price of None \<Rightarrow> dec_val cand
                       | Some f \<Rightarrow> max (dec_val cand) (dec_val f)) \<and>
         enforce_minimum p1 = Inr p2 \<and>
         dec_val p2 = max (dec_val p1) (1 / 100) \<and>
         quantize p2 TWO_PLACES ROUND_HALF_UP = Inr r \<and>
         dec_val r = round_half_up2 (dec_val p2)))
   \<and> (\<forall>current_price.
        calculate_price current_price (Finite False 50 (- 2)) (Finite False 75 (- 2))
          (Member MATCH_LOW) None (Some (Finite False 100 (- 2))) = Inr (Finite False 100 (- 2)))
   \<and> (\<forall>current_price market_price.
        calculate_price current_price (Finite False 0 (- 2)) market_price
          (Member MATCH_LOW) None (Some (Finite False 1 (- 3))) = Inr (Finite False 1 (- 2)))"
proof (intro conjI allI impI)
  fix current_price tcg_low market_price strategy undercut_pct floor_price cand r
  assume a: "strategy_price current_price tcg_low market_price strategy undercut_pct = Inr cand \<and>
      is_finite cand \<and> (case floor_price of None \<Rightarrow> True | Some f \<Rightarrow> is_finite f) \<and>
      calculate_price current_price tcg_low market_price strategy undercut_pct floor_price = Inr r"
  then obtain p1 p2 where fl: "enforce_floor floor_price cand = Inr p1"
    and mn: "enforce_minimum p1 = Inr p2"
    and q: "quantize p2 TWO_PLACES ROUND_HALF_UP = Inr r"
    by (auto simp add: calculate_price_def split: sum.splits)
  from a obtain s c e where cand: "cand = Finite s c e"
    by (cases cand) (simp_all add: is_finite_def)
  from a have ff: "case floor_price of None \<Rightarrow> True | Some f \<Rightarrow> is_finite f" by simp
  from enforce_floor_val [OF fl [unfolded cand] ff]
  have p1: "is_finite p1" and v1: "dec_val p1 = (case floor_price of None \<Rightarrow> dec_val cand
                       | Some f \<Rightarrow> max (dec_val cand) (dec_val f))"
    unfolding cand by simp_all
  from p1 obtain s1 c1 e1 where p1f: "p1 = Finite s1 c1 e1"
    by (cases p1) (simp_all add: is_finite_def)
  from enforce_minimum_val [OF mn [unfolded p1f]]
  have p2: "is_finite p2" and v2: "dec_val p2 = max (dec_val p1) (1 / 100)"
    by (simp_all add: p1f)
  from p2 obtain s2 c2 e2 where p2f: "p2 = Finite s2 c2 e2"
    by (cases p2) (simp_all add: is_finite_def)
  from quantize_two_places_val [OF q [unfolded p2f]]
  have v3: "dec_val r = round_half_up2 (dec_val p2)" by (simp add: p2f)
  from fl v1 mn v2 q v3
  show "\<exists>p1 p2.
         enforce_floor floor_price cand = Inr p1 \<and>
         dec_val p1 = (case floor_price of None \<Rightarrow> dec_val cand
                       | Some f \<Rightarrow> max (dec_val cand) (dec_val f)) \<and>
         enforce_minimum p1 = Inr p2 \<and>
         dec_val p2 = max (dec_val p1) (1 / 100) \<and>
         quantize p2 TWO_PLACES ROUND_HALF_UP = Inr r \<and>
         dec_val r = round_half_up2 (dec_val p2)"
    by blast
next
  fix current_price
  show "calculate_price current_price (Finite False 50 (- 2)) (Finite False 75 (- 2))
          (Member MATCH_LOW) None (Some (Finite False 100 (- 2))) = Inr (Finite False 100 (- 2))"
    by (simp add: price_eval dec_eval)
next
  fix current_price market_price
  show "calculate_price current_price (Finite False 0 (- 2)) market_price
          (Member MATCH_LOW) None (Some (Finite False 1 (- 3))) = Inr (Finite False 1 (- 2))"
    by (simp add: price_eval dec_eval)
qed

theorem calculate_price_post_processing_witness:
  "strategy_price (Finite False 1500 (- 2)) (Finite False 1250 (- 2)) (Finite False 1400 (- 2))
     (Member UNDERCUT) (Some (Finite False 5 0)) = Inr (Finite False 1188 (- 2))
   \<and> calculate_price (Finite False 1500 (- 2)) (Finite False 1250 (- 2)) (Finite False 1400 (- 2))
     (Member UNDERCUT) (Some (Finite False 5 0)) (Some (Finite False 12004 (- 3)))
     = Inr (Finite False 1200 (- 2))
   \<and> dec_val (Finite False 1200 (- 2))
     = round_half_up2 (max (max (dec_val (Finite False 1188 (- 2))) (dec_val (Finite False 12004 (- 3))))
         (1 / 100))"
proof -
  have h1: "strategy_price (Finite False 1500 (- 2)) (Finite False 1250 (- 2)) (Finite False 1400 (- 2))
     (Member UNDERCUT) (Some (Finite False 5 0)) = Inr (Finite False 1188 (- 2))"
    by (simp add: price_eval dec_eval)
  have h2: "calculate_price (Finite False 1500 (- 2)) (Finite False 1250 (- 2)) (Finite False 1400 (- 2))
     (Member UNDERCUT) (Some (Finite False 5 0)) (Some (Finite False 12004 (- 3)))
     = Inr (Finite False 1200 (- 2))"
    by (simp add: price_eval dec_eval)
  from calculate_price_post_processing [THEN conjunct1, rule_format,
      of "Finite False 1500 (- 2)" "Finite False 1250 (- 2)" "Finite False 1400 (- 2)"
         "Member UNDERCUT" "Some (Finite False 5 0)" "Finite False 1188 (- 2)"
         "Some (Finite False 12004 (- 3))" "Finite False 1200 (- 2)"] h1 h2
  obtain p1 p2 where
    "dec_val p1 = max (dec_val (Finite False 1188 (- 2))) (dec_val (Finite False 12004 (- 3)))"
    "dec_val p2 = max (dec_val p1) (1 / 100)"
    "dec_val (Finite False 1200 (- 2)) = round_half_up2 (dec_val p2)"
    by auto
  with h1 h2 show ?thesis by simp
qed


text \<open>
  C5, as stated: a strategy value that is not one of MATCH_LOW, UNDERCUT or MATCH_MARKET
  makes \<^verbatim>\<open>calculate_price\<close> fail with an InvalidStrategy error. The code has an
  \<^verbatim>\<open>else\<close> branch instead, which takes the current price as the candidate: with the
  string \<^verbatim>\<open>"clearance"\<close> as strategy, current price 15.00, lowest price 12.50 and market
  price 14.00, the call returns 15.00.
\<close>

theorem calculate_price_unrecognized_counterexample:
  "calculate_price (Finite False 1500 (- 2)) (Finite False 1250 (- 2)) (Finite False 1400 (- 2))
     (NonMember ''clearance'') None None = Inr (Finite False 1500 (- 2))"
  by (simp add: price_eval dec_eval)

text \<open>
  C5, amended: with a strategy value outside the enumeration, \<^verbatim>\<open>calculate_price\<close> takes
  \<^verbatim>\<open>current_price\<close> as the candidate and post-processes it like any other candidate
  (floor, one-cent minimum, rounding to two places); the lowest price, the market price and
  the undercut percentage play no part, and no error is raised on account of the strategy.
\<close>

theorem calculate_price_unrecognized:
  "calculate_price current_price tcg_low market_price (NonMember other) undercut_pct floor_price =
     (case enforce_floor floor_price current_price of
        Inl e \<Rightarrow> Inl e
      | Inr p1 \<Rightarrow>
         (case enforce_minimum p1 of
            Inl e \<Rightarrow> Inl e
          | Inr p2 \<Rightarrow> quantize p2 TWO_PLACES ROUND_HALF_UP))"
  by (simp add: calculate_price_def strategy_price_def)

theorem calculate_price_unrecognized_witness:
  "calculate_price (Finite False 725 (- 2)) (Finite False 1250 (- 2)) (Infinity True)
     (NonMember ''match_low'') (Some (Finite False 5 0)) (Some (Finite False 800 (- 2)))
   = Inr (Finite False 800 (- 2))"
  using calculate_price_unrecognized
    [of "Finite False 725 (- 2)" "Finite False 1250 (- 2)" "Infinity True" "''match_low''"
        "Some (Finite False 5 0)" "Some (Finite False 800 (- 2))"]
  by (simp add: enforce_floor_def enforce_minimum_def dec_eval)

section \<open>Claims about the alert evaluator\<close>




text \<open>
  C8, as stated: with old price 10.00, threshold 15 and direction up, the new price 11.50
  does not trigger. The code compares with \<^verbatim>\<open>>=\<close>, and the change from 10.00 to 11.50
  is exactly 15 percent, so the alert triggers.
\<close>

theorem evaluate_alert_boundary_counterexample:
  "evaluate_alert (Finite False 1000 (- 2)) (Finite False 1150 (- 2)) (Finite False 15 0) ''up''
     \<noteq> Inr False"
  by (simp add: evaluate_alert_def pct_change_def dec_eval)

text \<open>
  C8, amended: with old price 10.00, threshold 15 and direction up, the new price 11.50
  triggers (the percentage change is the Decimal 15.00, which reaches the threshold), and
  the new price 11.49 does not (the change is 14.900).
\<close>

theorem evaluate_alert_boundary:
  "evaluate_alert (Finite False 1000 (- 2)) (Finite False 1150 (- 2)) (Finite False 15 0) ''up''
     = Inr True
   \<and> pct_change (Finite False 1000 (- 2)) (Finite False 1150 (- 2)) = Inr (Finite False 1500 (- 2))
   \<and> evaluate_alert (Finite False 1000 (- 2)) (Finite False 1149 (- 2)) (Finite False 15 0) ''up''
     = Inr False
   \<and> pct_change (Finite False 1000 (- 2)) (Finite False 1149 (- 2)) = Inr (Finite False 14900 (- 3))"
  by (simp add: evaluate_alert_def pct_change_def dec_eval)

section \<open>Claims about CSV ingest and emit\<close>




lemma strip_Nil [simp]: "strip [] = []"
  by (simp add: strip_def)








lemma csv_row_cong:
  assumes "same_mapped_fields row row'"
  shows "csv_row row = csv_row row'"
proof -
  have "\<And>p. p \<in> set CSV_COLUMN_MAP \<Longrightarrow> map_of row (snd p) = map_of row' (snd p)"
    using assms by (auto simp add: same_mapped_fields_def mapped_fields_def list_all_iff)
  then show ?thesis
    by (auto simp add: csv_row_def split_def intro!: map_cong)
qed

lemma generate_csv_cong:
  assumes "list_all2 same_mapped_fields rows rows'"
  shows "generate_csv rows = generate_csv rows'"
proof -
  from assms have "map csv_row rows = map csv_row rows'"
    by (induction rule: list_all2_induct) (simp_all add: csv_row_cong)
  then show ?thesis by (simp add: generate_csv_def)
qed

lemma map_of_dict_set: "map_of (dict_set row k v) f = (if f = k then Some v else map_of row f)"
  by (induction row k v rule: dict_set.induct) auto

lemma new_price_not_mapped: "''new_price'' \<notin> set mapped_fields" "''diff'' \<notin> set mapped_fields"
  by (simp_all add: mapped_fields_def CSV_COLUMN_MAP_def)

lemma same_mapped_fields_dict_set:
  assumes "k \<notin> set mapped_fields"
  shows "same_mapped_fields row (dict_set row k v)"
  using assms by (auto simp add: same_mapped_fields_def list_all_iff map_of_dict_set)

lemma download_rows_same:
  assumes "download_rows rows strat undercut fl = Inr rows'"
  shows "list_all2 same_mapped_fields rows rows'"
  using assms
proof (induction rows arbitrary: rows')
  case Nil
  then show ?case by simp
next
  case (Cons row rows)
  from Cons.prems obtain res results where
    r: "download_row row strat undercut fl = Inr res"
    and rs: "download_rows rows strat undercut fl = Inr results"
    and eq: "rows' = res # results"
    by (auto split: sum.splits)
  from r obtain v where "res = dict_set row ''new_price'' v"
    by (auto simp add: download_row_def split: sum.splits prod.splits)
  then have "same_mapped_fields row res"
    using same_mapped_fields_dict_set [OF new_price_not_mapped(1)] by simp
  with Cons.IH [OF rs] eq show ?case by simp
qed

text \<open>
  C10: \<^verbatim>\<open>generate_csv\<close> depends only on the sixteen mapped fields of each row. Two row
  lists that agree on them row by row give the same text; adding \<^verbatim>\<open>new_price\<close> or
  \<^verbatim>\<open>diff\<close> to a row does not change its emitted cells; and whenever
  \<^verbatim>\<open>reprice_download\<close> returns a text, it is the emission of the rows as parsed, so the
  computed \<^verbatim>\<open>new_price\<close> does not reach the TCG Marketplace Price column.
\<close>

theorem generate_csv_mapped_fields_only:
  "(\<forall>rows rows'. list_all2 same_mapped_fields rows rows' \<longrightarrow> generate_csv rows = generate_csv rows')
   \<and> (\<forall>row v. csv_row (dict_set row ''new_price'' v) = csv_row row
              \<and> csv_row (dict_set row ''diff'' v) = csv_row row)
   \<and> (\<forall>original_csv strategy undercut_pct floor_price out.
         reprice_download original_csv strategy undercut_pct floor_price = Inr out \<longrightarrow>
         (\<exists>rows. parse_csv original_csv = Inr rows \<and> out = generate_csv rows))"
proof (intro conjI allI impI)
  fix rows rows' assume "list_all2 same_mapped_fields rows rows'"
  then show "generate_csv rows = generate_csv rows'" by (rule generate_csv_cong)
next
  fix row v
  show "csv_row (dict_set row ''new_price'' v) = csv_row row"
    using csv_row_cong [OF same_mapped_fields_dict_set [OF new_price_not_mapped(1)]] by simp
  show "csv_row (dict_set row ''diff'' v) = csv_row row"
    using csv_row_cong [OF same_mapped_fields_dict_set [OF new_price_not_mapped(2)]] by simp
next
  fix original_csv strategy undercut_pct floor_price out
  assume "reprice_download original_csv strategy undercut_pct floor_price = Inr out"
  then obtain rows strat undercut fl rows' where p: "parse_csv original_csv = Inr rows"
    and d: "download_rows rows strat undercut fl = Inr rows'" and o: "out = generate_csv rows'"
    by (auto simp add: reprice_download_def split: sum.splits)
  from download_rows_same [OF d] have "generate_csv rows = generate_csv rows'"
    by (rule generate_csv_cong)
  with p o show "\<exists>rows. parse_csv original_csv = Inr rows \<and> out = generate_csv rows" by simp
qed

theorem generate_csv_mapped_fields_only_witness:
  "generate_csv [[(''sku_id'', PyStr ''9876543''), (''current_listed_price'', PyDec (Finite False 1500 (- 2)))]]
   = generate_csv [[(''sku_id'', PyStr ''9876543''), (''current_listed_price'', PyDec (Finite False 1500 (- 2))),
        (''new_price'', PyDec (Finite False 1250 (- 2))), (''diff'', PyDec (Finite True 250 (- 2)))]]"
proof -
  have "list_all2 same_mapped_fields
     [[(''sku_id'', PyStr ''9876543''), (''current_listed_price'', PyDec (Finite False 1500 (- 2)))]]
     [[(''sku_id'', PyStr ''9876543''), (''current_listed_price'', PyDec (Finite False 1500 (- 2))),
        (''new_price'', PyDec (Finite False 1250 (- 2))), (''diff'', PyDec (Finite True 250 (- 2)))]]"
    by (simp add: same_mapped_fields_def mapped_fields_def CSV_COLUMN_MAP_def)
  with generate_csv_mapped_fields_only show ?thesis by blast
qed


section \<open>Claims about batch application\<close>

lemma price_or_zero_absent:
  "absent_or_zero (map_of row name) \<Longrightarrow> price_or_zero row name = Inr (Finite False 0 0)"
  by (auto simp add: absent_or_zero_def price_or_zero_def split: option.splits pyval.splits)

lemma price_or_zero_present:
  "price_or_zero row name = Inr d \<Longrightarrow> \<not> absent_or_zero (map_of row name) \<Longrightarrow>
     map_of row name = Some (PyDec d) \<and> dec_bool d"
  by (auto simp add: absent_or_zero_def price_or_zero_def split: option.splits pyval.splits if_splits)

lemma price_or_zero_bool:
  "price_or_zero row name = Inr d \<Longrightarrow> dec_bool d \<longleftrightarrow> \<not> absent_or_zero (map_of row name)"
  by (auto simp add: absent_or_zero_def price_or_zero_def dec_bool_def
      split: option.splits pyval.splits if_splits)

text \<open>
  C9, as stated: the difference is the new price minus the current price whenever the
  current price is present. The code tests the truth value of the current price after
  defaulting it, so a current price that is present and zero gets the difference 0: with
  lowest price 12.50, market price 14.00 and current price 0.00 under MATCH_LOW the new
  price is 12.50 and the stored difference is 0, while 12.50 - 0.00 is 12.50.
\<close>

theorem batch_application_counterexample:
  "upload_row
     [(''market_price'', PyDec (Finite False 1400 (- 2))),
      (''tcg_low'', PyDec (Finite False 1250 (- 2))),
      (''current_listed_price'', PyDec (Finite False 0 (- 2)))]
     MATCH_LOW None None
   = Inr [(''market_price'', PyDec (Finite False 1400 (- 2))),
          (''tcg_low'', PyDec (Finite False 1250 (- 2))),
          (''current_listed_price'', PyDec (Finite False 0 (- 2))),
          (''new_price'', PyDec (Finite False 1250 (- 2))),
          (''diff'', PyDec (Finite False 0 0))]
   \<and> dec_sub (Finite False 1250 (- 2)) (Finite False 0 (- 2)) = Inr (Finite False 1250 (- 2))"
  by (simp add: upload_row_def row_new_price_def price_or_zero_def price_eval dec_eval)

text \<open>
  C9, amended: in batch application each of the three prices of a row defaults to the
  Decimal 0 when it is absent or zero. When lowest price and market price are both absent
  or zero, the new price is the (defaulted) current price and no strategy is applied;
  otherwise \<^verbatim>\<open>calculate_price\<close> is called on the defaulted prices.
  \<^verbatim>\<open>reprice_download\<close> stores the new price in the row; \<^verbatim>\<open>reprice_upload\<close> stores it
  with the difference, which is the new price minus the current price when the current
  price is present and not zero, else 0.
\<close>

theorem batch_application:
  "(\<forall>row strat undercut floor_price tcg_low market current.
      price_or_zero row ''tcg_low'' = Inr tcg_low \<and>
      price_or_zero row ''market_price'' = Inr market \<and>
      price_or_zero row ''current_listed_price'' = Inr current \<longrightarrow>
      (tcg_low = (case map_of row ''tcg_low'' of
                    Some (PyDec d) \<Rightarrow> if dec_bool d then d else Finite False 0 0
                  | _ \<Rightarrow> Finite False 0 0)) \<and>
      row_new_price row strat undercut floor_price =
        (if absent_or_zero (map_of row ''tcg_low'') \<and> absent_or_zero (map_of row ''market_price'')
         then Inr (current, current)
         else (case calculate_price current tcg_low market (Member strat) undercut floor_price of
                 Inl e \<Rightarrow> Inl e
               | Inr new_price \<Rightarrow> Inr (new_price, current))))
   \<and> (\<forall>row strat undercut floor_price new_price current.
        row_new_price row strat undercut floor_price = Inr (new_price, current) \<longrightarrow>
        download_row row strat undercut floor_price = Inr (dict_set row ''new_price'' (PyDec new_price)) \<and>
        upload_row row strat undercut floor_price =
          (case (if absent_or_zero (map_of row ''current_listed_price'') then Inr (Finite False 0 0)
                 else dec_sub new_price current) of
             Inl e \<Rightarrow> Inl e
           | Inr diff \<Rightarrow>
               Inr (dict_set (dict_set row ''new_price'' (PyDec new_price)) ''diff'' (PyDec diff))))"
proof (intro conjI allI impI)
  fix row strat undercut floor_price tcg_low market current
  assume a: "price_or_zero row ''tcg_low'' = Inr tcg_low \<and>
      price_or_zero row ''market_price'' = Inr market \<and>
      price_or_zero row ''current_listed_price'' = Inr current"
  then show "tcg_low = (case map_of row ''tcg_low'' of
                    Some (PyDec d) \<Rightarrow> if dec_bool d then d else Finite False 0 0
                  | _ \<Rightarrow> Finite False 0 0)"
    by (auto simp add: price_or_zero_def split: option.splits pyval.splits if_splits)
  from a have b1: "dec_bool tcg_low \<longleftrightarrow> \<not> absent_or_zero (map_of row ''tcg_low'')"
    and b2: "dec_bool market \<longleftrightarrow> \<not> absent_or_zero (map_of row ''market_price'')"
    by (simp_all add: price_or_zero_bool)
  show "row_new_price row strat undercut floor_price =
        (if absent_or_zero (map_of row ''tcg_low'') \<and> absent_or_zero (map_of row ''market_price'')
         then Inr (current, current)
         else (case calculate_price current tcg_low market (Member strat) undercut floor_price of
                 Inl e \<Rightarrow> Inl e
               | Inr new_price \<Rightarrow> Inr (new_price, current)))"
    using a b1 b2 by (auto simp add: row_new_price_def)
next
  fix row strat undercut floor_price new_price current
  assume a: "row_new_price row strat undercut floor_price = Inr (new_price, current)"
  then show "download_row row strat undercut floor_price = Inr (dict_set row ''new_price'' (PyDec new_price))"
    by (simp add: download_row_def)
  from a have "price_or_zero row ''current_listed_price'' = Inr current"
    by (auto simp add: row_new_price_def split: sum.splits if_splits)
  then have "dec_bool current \<longleftrightarrow> \<not> absent_or_zero (map_of row ''current_listed_price'')"
    by (rule price_or_zero_bool)
  with a show "upload_row row strat undercut floor_price =
          (case (if absent_or_zero (map_of row ''current_listed_price'') then Inr (Finite False 0 0)
                 else dec_sub new_price current) of
             Inl e \<Rightarrow> Inl e
           | Inr diff \<Rightarrow>
               Inr (dict_set (dict_set row ''new_price'' (PyDec new_price)) ''diff'' (PyDec diff)))"
    by (simp add: upload_row_def)
qed

theorem batch_application_witness:
  "row_new_price
     [(''market_price'', PyNone), (''tcg_low'', PyDec (Finite False 0 (- 2))),
      (''current_listed_price'', PyDec (Finite False 1500 (- 2)))] UNDERCUT (Some (Finite False 5 0)) None
   = Inr (Finite False 1500 (- 2), Finite False 1500 (- 2))
   \<and> upload_row
     [(''market_price'', PyNone), (''tcg_low'', PyDec (Finite False 0 (- 2))),
      (''current_listed_price'', PyDec (Finite False 1500 (- 2)))] UNDERCUT (Some (Finite False 5 0)) None
   = Inr [(''market_price'', PyNone), (''tcg_low'', PyDec (Finite False 0 (- 2))),
      (''current_listed_price'', PyDec (Finite False 1500 (- 2))),
      (''new_price'', PyDec (Finite False 1500 (- 2))), (''diff'', PyDec (Finite False 0 (- 2)))]"
proof -
  let ?row = "[(''market_price'', PyNone), (''tcg_low'', PyDec (Finite False 0 (- 2))),
      (''current_listed_price'', PyDec (Finite False 1500 (- 2)))]"
  have h: "price_or_zero ?row ''tcg_low'' = Inr (Finite False 0 0) \<and>
      price_or_zero ?row ''market_price'' = Inr (Finite False 0 0) \<and>
      price_or_zero ?row ''current_listed_price'' = Inr (Finite False 1500 (- 2))"
    by (simp add: price_or_zero_def dec_bool_def)
  from batch_application [THEN conjunct1, rule_format, OF h, of UNDERCUT "Some (Finite False 5 0)" None]
  have n: "row_new_price ?row UNDERCUT (Some (Finite False 5 0)) None
     = Inr (Finite False 1500 (- 2), Finite False 1500 (- 2))"
    by (simp add: absent_or_zero_def dec_bool_def)
  from batch_application [THEN conjunct2, rule_format, OF n]
  have "upload_row ?row UNDERCUT (Some (Finite False 5 0)) None
     = Inr (dict_set (dict_set ?row ''new_price'' (PyDec (Finite False 1500 (- 2)))) ''diff''
         (PyDec (Finite False 0 (- 2))))"
    by (simp add: absent_or_zero_def dec_eval)
  with n show ?thesis by simp
qed


end
